theory Spec2Isabelle
  imports Main "HOL-Library.Sublist"
begin

section \<open>JavaScript helpers used by the sources\<close>

text \<open>
  Strings are character lists. The white space set is the one \<open>String.prototype.trim\<close> and
  \<open>parseInt\<close> strip, restricted to the code units an 8-bit character can hold
  (TAB, LF, VT, FF, CR, SPACE, NBSP).
\<close>

definition is_ws :: "char \<Rightarrow> bool" where
  "is_ws c = (of_char c \<in> {9::nat, 10, 11, 12, 13, 32, 160})"

definition trim :: "string \<Rightarrow> string" where
  "trim s = rev (dropWhile is_ws (rev (dropWhile is_ws s)))"

definition is_digit :: "char \<Rightarrow> bool" where
  "is_digit c = (48 \<le> (of_char c :: nat) \<and> (of_char c :: nat) \<le> 57)"

definition digit_val :: "char \<Rightarrow> int" where
  "digit_val c = int (of_char c) - 48"

text \<open>
  A JavaScript number as far as the sources use one: the result of \<open>parseInt\<close> is either
  \<open>NaN\<close> or an integer. (The double rounding of integers beyond \<open>2^53\<close> is monotone and
  keeps every comparison with the small integers the sources compare against.)
\<close>

datatype jsnum = NaN | Num int

text \<open>
  \<open>parseInt(s, 10)\<close>: leading white space is dropped, one sign is read, the longest prefix
  of decimal digits is the value, and no digit at all gives \<open>NaN\<close>.
\<close>

definition parseInt :: "string \<Rightarrow> jsnum" where
  "parseInt s =
     (let s1 = dropWhile is_ws s;
          neg = (s1 \<noteq> [] \<and> hd s1 = CHR ''-'');
          s2 = (if s1 \<noteq> [] \<and> (hd s1 = CHR ''-'' \<or> hd s1 = CHR ''+'') then tl s1 else s1);
          z = takeWhile is_digit s2
      in if z = [] then NaN
         else Num ((if neg then - 1 else 1) * foldl (\<lambda>a c. 10 * a + digit_val c) 0 z))"

text \<open>\<open>a || b\<close> on optional strings: \<open>undefined\<close> and the empty string are falsy.\<close>

definition js_or :: "string option \<Rightarrow> string option \<Rightarrow> string option" where
  "js_or a b = (case a of None \<Rightarrow> b | Some s \<Rightarrow> if s = [] then b else Some s)"

text \<open>\<open>n > t\<close> for an integer \<open>n\<close>: every comparison with \<open>NaN\<close> is false.\<close>

fun js_gt :: "int \<Rightarrow> jsnum \<Rightarrow> bool" where
  "js_gt n NaN = False"
| "js_gt n (Num m) = (n > m)"

section \<open>The search page: \<open>src/app/page.tsx\<close>\<close>

record SearchItem =
  title :: string
  link :: string
  thumbnail :: "string option"

text \<open>A raw item of the search API, with the fields the page reads.\<close>

record RawItem =
  raw_title :: string
  raw_link :: string
  raw_image_thumbnailLink :: "string option"
  raw_thumbnail :: "string option"

text \<open>
  The \<open>error\<close> member of a response body. The interface \<open>SearchResponse\<close> declares an object
  with \<open>message\<close> and optional \<open>details\<close>; the route handler of \<open>/api/search\<close> sends a
  string there, so the body type has both.
\<close>

datatype error_field =
  ErrorAbsent
  | ErrorString string
  | ErrorObject "string option" "string option"

text \<open>\<open>data.error?.details\<close> and \<open>data.error?.message\<close>: a string has neither property.\<close>

fun error_details :: "error_field \<Rightarrow> string option" where
  "error_details ErrorAbsent = None"
| "error_details (ErrorString s) = None"
| "error_details (ErrorObject msg det) = det"

fun error_message :: "error_field \<Rightarrow> string option" where
  "error_message ErrorAbsent = None"
| "error_message (ErrorString s) = None"
| "error_message (ErrorObject msg det) = msg"

text \<open>
  The parsed JSON body: \<open>items\<close>, \<open>searchInformation?.totalResults\<close>, \<open>error\<close>, and the
  top-level \<open>details\<close> member that the route handler adds to its error bodies.
\<close>

record SearchResponse =
  resp_items :: "RawItem list option"
  resp_totalResults :: "string option"
  resp_error :: error_field
  resp_details :: "string option"

text \<open>
  What \<open>await fetch(...)\<close> followed by \<open>await response.json()\<close> gives: an exception
  (the network failed, or the body is not JSON), or a status and a parsed body.
\<close>

datatype fetch_result = Rejected | Responded int SearchResponse

definition response_ok :: "int \<Rightarrow> bool" where
  "response_ok s = (200 \<le> s \<and> s \<le> 299)"

datatype search_request = SearchRequest string int

record SearchPage =
  query :: string
  items :: "SearchItem list"
  loading :: bool
  loadingMore :: bool
  error :: "string option"
  start :: int
  hasMore :: bool
  totalResults :: "jsnum option"

definition toSearchItem :: "RawItem \<Rightarrow> SearchItem" where
  "toSearchItem it =
     \<lparr> title = raw_title it, link = raw_link it,
       thumbnail = js_or (js_or (raw_image_thumbnailLink it) (raw_thumbnail it)) None \<rparr>"

text \<open>The filter with the \<open>seen\<close> set: the first item of each link is kept.\<close>

fun dedupe :: "string set \<Rightarrow> SearchItem list \<Rightarrow> SearchItem list" where
  "dedupe seen [] = []"
| "dedupe seen (i # rest) =
     (if link i \<in> seen then dedupe seen rest else i # dedupe (insert (link i) seen) rest)"

text \<open>The updater passed to \<open>setItems\<close>.\<close>

definition mergeItems :: "bool \<Rightarrow> SearchItem list \<Rightarrow> SearchItem list \<Rightarrow> SearchItem list" where
  "mergeItems appendp newItems prev = dedupe {} (if appendp then prev @ newItems else newItems)"

definition finally_flags :: "SearchPage \<Rightarrow> SearchPage" where
  "finally_flags st = st\<lparr>loading := False, loadingMore := False\<rparr>"

text \<open>
  \<open>fetchResults\<close> up to its first \<open>await\<close>: the loading flag, the guard on the start index,
  and the request it issues, if any.
\<close>

definition fetchResults_begin ::
  "string \<Rightarrow> int \<Rightarrow> bool \<Rightarrow> SearchPage \<Rightarrow> SearchPage \<times> search_request option" where
  "fetchResults_begin q startIndex appendp st =
     (let st1 = (if appendp then st\<lparr>loadingMore := True\<rparr> else st\<lparr>loading := True\<rparr>)
      in if startIndex > 100 then
           (let st2 = (if appendp then st1\<lparr>loadingMore := False\<rparr> else st1\<lparr>loading := False\<rparr>)
            in (finally_flags (st2\<lparr>hasMore := False\<rparr>), None))
         else (st1, Some (SearchRequest q startIndex)))"

definition parse_total :: "SearchResponse \<Rightarrow> jsnum option" where
  "parse_total data =
     (case resp_totalResults data of
        None \<Rightarrow> None
      | Some s \<Rightarrow> if s = [] then None else Some (parseInt s))"

definition page_items :: "SearchResponse \<Rightarrow> SearchItem list" where
  "page_items data = map toSearchItem (case resp_items data of None \<Rightarrow> [] | Some raw \<Rightarrow> raw)"

definition on_success :: "int \<Rightarrow> bool \<Rightarrow> SearchResponse \<Rightarrow> SearchPage \<Rightarrow> SearchPage" where
  "on_success startIndex appendp data st =
     (let newItems = page_items data;
          total = parse_total data;
          nextStart = startIndex + int (length newItems)
      in st\<lparr> items := mergeItems appendp newItems (items st),
             totalResults := total,
             start := nextStart,
             hasMore :=
               (if length newItems = 0 \<or> (case total of None \<Rightarrow> False | Some t \<Rightarrow> js_gt nextStart t)
                then False else True) \<rparr>)"

definition error_text :: "SearchResponse \<Rightarrow> string" where
  "error_text data =
     (case js_or (js_or (error_details (resp_error data)) (error_message (resp_error data)))
             (Some ''An unknown error occurred.'') of
        None \<Rightarrow> [] | Some s \<Rightarrow> s)"

text \<open>\<open>fetchResults\<close> from the response on, with the \<open>catch\<close> and \<open>finally\<close> blocks.\<close>

definition fetchResults_settle :: "int \<Rightarrow> bool \<Rightarrow> fetch_result \<Rightarrow> SearchPage \<Rightarrow> SearchPage" where
  "fetchResults_settle startIndex appendp res st =
     finally_flags
       (case res of
          Rejected \<Rightarrow>
            st\<lparr>error := Some ''Could not connect to the search service.'', hasMore := False\<rparr>
        | Responded status data \<Rightarrow>
            if response_ok status then on_success startIndex appendp data st
            else st\<lparr>error := Some (error_text data), hasMore := False\<rparr>)"

text \<open>
  One whole call of \<open>fetchResults\<close>: the new state and the network requests issued.
  \<open>res\<close> is what the network answers if it is asked.
\<close>

definition fetchResults ::
  "string \<Rightarrow> int \<Rightarrow> bool \<Rightarrow> fetch_result \<Rightarrow> SearchPage \<Rightarrow> SearchPage \<times> search_request list" where
  "fetchResults q startIndex appendp res st =
     (case fetchResults_begin q startIndex appendp st of
        (st1, None) \<Rightarrow> (st1, [])
      | (st1, Some r) \<Rightarrow> (fetchResults_settle startIndex appendp res st1, [r]))"

text \<open>The initial values of the state hooks of \<open>SearchPage\<close>.\<close>

definition initial_page :: SearchPage where
  "initial_page =
     \<lparr> query = [], items = [], loading = False, loadingMore = False, error = None,
       start = 1, hasMore = True, totalResults = None \<rparr>"

text \<open>
  \<open>handleSearch\<close> up to the first \<open>await\<close> of the \<open>fetchResults\<close> call it ends with:
  an empty (trimmed) query returns at once; otherwise the session is reset and the first
  page is requested at start index 1, replacing the items.
\<close>

definition handleSearch :: "SearchPage \<Rightarrow> SearchPage \<times> search_request option" where
  "handleSearch st =
     (if trim (query st) = [] then (st, None)
      else fetchResults_begin (trim (query st)) 1 False
             (st\<lparr>error := None, items := [], start := 1, hasMore := True, totalResults := None\<rparr>))"

subsection \<open>The page as an event system\<close>

text \<open>
  Between two events the page holds its state and the calls of \<open>fetchResults\<close> that are
  suspended at their \<open>await\<close>, each with its start index and its \<open>append\<close> flag. The events
  of a session are: the sentinel comes into view (an observer entry with \<open>isIntersecting\<close>),
  and the response of a suspended call arrives. The observer callback is taken to read the
  state of the latest render.
\<close>

type_synonym app = "SearchPage \<times> (int \<times> bool) list"

datatype event = SentinelIntersects | FetchSettles nat fetch_result

fun step :: "event \<Rightarrow> app \<Rightarrow> app \<times> search_request list" where
  "step SentinelIntersects (st, pend) =
     (if hasMore st \<and> \<not> loadingMore st \<and> \<not> loading st \<and> length (items st) > 0 then
        (case fetchResults_begin (trim (query st)) (start st) True st of
           (st1, None) \<Rightarrow> ((st1, pend), [])
         | (st1, Some r) \<Rightarrow> ((st1, pend @ [(start st, True)]), [r]))
      else ((st, pend), []))"
| "step (FetchSettles i res) (st, pend) =
     (if i < length pend then
        ((fetchResults_settle (fst (pend ! i)) (snd (pend ! i)) res st,
          take i pend @ drop (Suc i) pend), [])
      else ((st, pend), []))"

fun run :: "event list \<Rightarrow> app \<Rightarrow> app \<times> search_request list" where
  "run [] a = (a, [])"
| "run (e # es) a =
     (case step e a of (a1, r1) \<Rightarrow> (case run es a1 of (a2, r2) \<Rightarrow> (a2, r1 @ r2)))"


text \<open>
  The state of the application right after a search is submitted. A session is followed
  from here with its own calls only: \<open>handleSearch\<close> cancels nothing, and a call issued
  before the submission is not part of the session.
\<close>

definition start_session :: "SearchPage \<Rightarrow> app" where
  "start_session st =
     (case handleSearch st of
        (st1, None) \<Rightarrow> (st1, [])
      | (st1, Some r) \<Rightarrow> (st1, [(1, False)]))"

text \<open>
  The number of items of a page that are new to the session by link, in the words of the
  specification: the distinct links of the page that are not among the items held before
  (in replace mode nothing is held before).
\<close>

definition newly_unique :: "bool \<Rightarrow> SearchItem list \<Rightarrow> SearchItem list \<Rightarrow> nat" where
  "newly_unique appendp newItems prev =
     length (remdups (filter (\<lambda>l. l \<notin> set (if appendp then map link prev else []))
                             (map link newItems)))"

section \<open>The image grid: \<open>src/components/ImageGrid.tsx\<close>\<close>

text \<open>
  The two maps of the component, from a link to a flag. \<open>prev[link]\<close> is truthy when the
  link is bound to \<open>true\<close>.
\<close>

record ImageGrid =
  failedMap :: "string \<rightharpoonup> bool"
  useProxyMap :: "string \<rightharpoonup> bool"


definition flag :: "(string \<rightharpoonup> bool) \<Rightarrow> string \<Rightarrow> bool" where
  "flag m l = (m l = Some True)"




datatype img_src = DirectSrc string | ProxySrc string

definition srcFor :: "SearchItem \<Rightarrow> bool \<Rightarrow> ImageGrid \<Rightarrow> img_src" where
  "srcFor item preferThumbnail st =
     (let base = (case (if preferThumbnail then js_or (thumbnail item) None else None) of
                    Some t \<Rightarrow> t | None \<Rightarrow> link item)
      in if flag (useProxyMap st) (link item) then ProxySrc base else DirectSrc base)"

text \<open>
  What the component renders for an item: the fallback once the link is marked failed,
  the image element (the only carrier of the \<open>onError\<close> handler) otherwise.
\<close>

datatype rendered = ImageFallback string | Img img_src

definition render_item :: "SearchItem \<Rightarrow> bool \<Rightarrow> ImageGrid \<Rightarrow> rendered" where
  "render_item item preferThumbnail st =
     (if flag (failedMap st) (link item) then ImageFallback (link item)
      else Img (srcFor item preferThumbnail st))"





section \<open>The image proxy: \<open>src/app/api/image-proxy/route.ts\<close>\<close>

text \<open>
  Of a parsed URL the handler reads the protocol only. The URL parser of the platform
  (\<open>new URL(url)\<close>, which throws on a string that is no absolute URL) is a parameter of
  the model: \<open>None\<close> is the exception.
\<close>

record URL =
  protocol :: string

text \<open>
  The upstream fetch: a response (status, status text, content type, body), the abort of
  the 10 second timer, or any other exception.
\<close>

datatype upstream_result =
  UpstreamResponse int string "string option" string
  | AbortError
  | OtherError

datatype proxy_body =
  JsonError string "int option" "string option"
  | StreamBody string
  | NoBody

record proxy_response =
  p_status :: int
  p_body :: proxy_body
  p_headers :: "(string \<times> string) list"

definition CORS_HEADERS :: "(string \<times> string) list" where
  "CORS_HEADERS =
     [(''Access-Control-Allow-Origin'', ''*''), (''Access-Control-Allow-Methods'', ''GET,OPTIONS'')]"

definition image_proxy_OPTIONS :: proxy_response where
  "image_proxy_OPTIONS = \<lparr> p_status = 204, p_body = NoBody, p_headers = CORS_HEADERS \<rparr>"

definition json_error :: "string \<Rightarrow> int option \<Rightarrow> string option \<Rightarrow> int \<Rightarrow> proxy_response" where
  "json_error msg st txt code =
     \<lparr> p_status = code, p_body = JsonError msg st txt, p_headers = CORS_HEADERS \<rparr>"


text \<open>The handler: its response and the URLs it fetched.\<close>

definition image_proxy_GET ::
  "(string \<Rightarrow> URL option) \<Rightarrow> string option \<Rightarrow> upstream_result \<Rightarrow> proxy_response \<times> string list" where
  "image_proxy_GET parseURL u upstream =
     (case js_or u None of
        None \<Rightarrow> (json_error ''Missing url parameter (u)'' None None 400, [])
      | Some url \<Rightarrow>
          (case parseURL url of
             None \<Rightarrow> (json_error ''Invalid url'' None None 400, [])
           | Some parsed \<Rightarrow>
               if protocol parsed \<notin> set [''http:'', ''https:'']
               then (json_error ''Invalid url'' None None 400, [])
               else
                 (case upstream of
                    UpstreamResponse s txt ctype content \<Rightarrow>
                      if \<not> response_ok s
                      then (json_error ''Upstream fetch failed'' (Some s) (Some txt) (max 400 s), [url])
                      else
                        (\<lparr> p_status = 200, p_body = StreamBody content,
                           p_headers =
                             [(''content-type'',
                                 (case js_or ctype (Some ''application/octet-stream'') of
                                    Some c \<Rightarrow> c | None \<Rightarrow> [])),
                              (''cache-control'',
                                 ''public, max-age=86400, stale-while-revalidate=604800'')]
                             @ CORS_HEADERS \<rparr>, [url])
                  | AbortError \<Rightarrow> (json_error ''Upstream timeout'' None None 502, [url])
                  | OtherError \<Rightarrow> (json_error ''Proxy fetch error'' None None 502, [url]))))"

text \<open>
  A parser to run the handler on examples: the scheme of the string, when it starts with
  a letter and has a colon after letters, digits, \<open>+\<close>, \<open>-\<close> and \<open>.\<close>; lower case only.
\<close>

definition is_scheme_char :: "char \<Rightarrow> bool" where
  "is_scheme_char c =
     ((97 \<le> (of_char c :: nat) \<and> (of_char c :: nat) \<le> 122) \<or> is_digit c \<or>
      c = CHR ''+'' \<or> c = CHR ''-'' \<or> c = CHR ''.'')"

definition scheme_parser :: "string \<Rightarrow> URL option" where
  "scheme_parser s =
     (let sch = takeWhile is_scheme_char s; rest = dropWhile is_scheme_char s
      in if sch \<noteq> [] \<and> \<not> is_digit (hd sch) \<and> rest \<noteq> [] \<and> hd rest = CHR '':''
         then Some \<lparr> protocol = sch @ '':'' \<rparr> else None)"

section \<open>The search endpoint: \<open>src/app/api/search/route.ts\<close>\<close>

datatype google_request = GoogleRequest string string string int

definition error_body :: "string \<Rightarrow> string option \<Rightarrow> SearchResponse" where
  "error_body msg det =
     \<lparr> resp_items = None, resp_totalResults = None, resp_error = ErrorString msg,
       resp_details = det \<rparr>"

text \<open>Lines 38 and 39: the start index sent upstream.\<close>

definition effective_start :: "string option \<Rightarrow> int" where
  "effective_start p =
     (case parseInt (case js_or p (Some ''1'') of Some s \<Rightarrow> s | None \<Rightarrow> []) of
        NaN \<Rightarrow> 1
      | Num n \<Rightarrow> if n < 1 then 1 else n)"

text \<open>
  The handler, given the two configuration values, the parameters \<open>q\<close> and \<open>start\<close> and
  what the upstream API answers: the status and body it returns, and the upstream
  requests it made.
\<close>

definition search_GET ::
  "string option \<Rightarrow> string option \<Rightarrow> string option \<Rightarrow> string option \<Rightarrow> fetch_result
     \<Rightarrow> (int \<times> SearchResponse) \<times> google_request list" where
  "search_GET api_key cx q startp upstream =
     (case (js_or api_key None, js_or cx None) of
        (Some k, Some c) \<Rightarrow>
          (case js_or q None of
             None \<Rightarrow> ((400, error_body ''Missing search query'' None), [])
           | Some qs \<Rightarrow>
               (let req = GoogleRequest k c qs (effective_start startp)
                in case upstream of
                     Rejected \<Rightarrow> ((500, error_body ''Internal server error'' None), [req])
                   | Responded s data \<Rightarrow>
                       if \<not> response_ok s
                       then ((s, error_body ''Search API error'' (error_message (resp_error data))),
                             [req])
                       else ((200, data), [req])))
      | _ \<Rightarrow> ((500, error_body ''API configuration missing'' None), []))"

section \<open>Example data\<close>

definition raw_item :: "string \<Rightarrow> RawItem" where
  "raw_item l =
     \<lparr> raw_title = l, raw_link = l, raw_image_thumbnailLink = None, raw_thumbnail = None \<rparr>"

definition item_of :: "string \<Rightarrow> SearchItem" where
  "item_of l = \<lparr> title = l, link = l, thumbnail = None \<rparr>"

text \<open>A 200 response with one raw item per link and the given \<open>totalResults\<close>.\<close>

definition ok_page :: "string list \<Rightarrow> string option \<Rightarrow> fetch_result" where
  "ok_page ls tot =
     Responded 200
       \<lparr> resp_items = Some (map raw_item ls), resp_totalResults = tot,
         resp_error = ErrorAbsent, resp_details = None \<rparr>"

definition cats_page :: SearchPage where
  "cats_page = initial_page\<lparr>query := ''cats''\<rparr>"

text \<open>The page after a first fetch that returned the one item \<open>a\<close>.\<close>

definition held_a :: SearchPage where
  "held_a = cats_page\<lparr>items := [item_of ''a''], start := 2\<rparr>"

definition ten_links :: "string list" where
  "ten_links = [''c0'', ''c1'', ''c2'', ''c3'', ''c4'', ''c5'', ''c6'', ''c7'', ''c8'', ''c9'']"

text \<open>The page holding ten items, about to continue at start index 11.\<close>

definition held_ten :: SearchPage where
  "held_ten = cats_page\<lparr>items := map item_of ten_links, start := 11\<rparr>"

text \<open>An error body of the upstream API: \<open>{error: {message: "Daily Limit Exceeded"}}\<close>.\<close>

definition google_403 :: SearchResponse where
  "google_403 =
     \<lparr> resp_items = None, resp_totalResults = None,
       resp_error = ErrorObject (Some ''Daily Limit Exceeded'') None, resp_details = None \<rparr>"

section \<open>Properties\<close>

subsection \<open>The guard on the start index\<close>

lemmas page_defs =
  ok_page_def raw_item_def item_of_def cats_page_def initial_page_def
  fetchResults_def fetchResults_begin_def fetchResults_settle_def finally_flags_def
  on_success_def page_items_def toSearchItem_def parse_total_def mergeItems_def
  response_ok_def js_or_def error_text_def Let_def

text \<open>
  Claim C6: a call of \<open>fetchResults\<close> whose start index exceeds 100 issues no network
  request and returns with \<open>hasMore\<close> false (and both loading flags cleared), whatever the
  network would have answered.
\<close>

theorem fetchResults_beyond_100:
  "startIndex > 100 \<Longrightarrow>
     snd (fetchResults q startIndex appendp res st) = [] \<and>
     hasMore (fst (fetchResults q startIndex appendp res st)) = False \<and>
     loading (fst (fetchResults q startIndex appendp res st)) = False \<and>
     loadingMore (fst (fetchResults q startIndex appendp res st)) = False \<and>
     items (fst (fetchResults q startIndex appendp res st)) = items st \<and>
     start (fst (fetchResults q startIndex appendp res st)) = start st"
  by (simp add: fetchResults_def fetchResults_begin_def finally_flags_def)

theorem fetchResults_beyond_100_witness:
  "(101::int) > 100 \<and>
   fetchResults ''cats'' 101 True (ok_page [''b''] None) (held_a\<lparr>start := 101\<rparr>) =
     (held_a\<lparr>start := 101, hasMore := False\<rparr>, [])"
  using fetchResults_beyond_100 [of 101 "''cats''" True "ok_page [''b''] None" "held_a\<lparr>start := 101\<rparr>"]
  by (simp add: page_defs held_a_def)

subsection \<open>Deduplication by link\<close>

lemma dedupe_links:
  "distinct (map link (dedupe seen xs)) \<and> link ` set (dedupe seen xs) = link ` set xs - seen"
  by (induction xs arbitrary: seen) auto

lemma subseq_dedupe: "subseq (dedupe seen xs) xs"
  by (induction xs arbitrary: seen) auto

lemma dedupe_first:
  "x \<in> set (dedupe seen xs) \<Longrightarrow> find (\<lambda>y. link y = link x) xs = Some x"
proof (induction xs arbitrary: seen)
  case Nil
  then show ?case by simp
next
  case (Cons i rest)
  show ?case
  proof (cases "link i \<in> seen")
    case True
    with Cons.prems have in_rest: "x \<in> set (dedupe seen rest)" by simp
    then have "link x \<in> link ` set (dedupe seen rest)" by blast
    then have "link x \<notin> seen" using dedupe_links [of seen rest] by blast
    with True have "link i \<noteq> link x" by auto
    with Cons.IH [OF in_rest] show ?thesis by simp
  next
    case False
    with Cons.prems have "x = i \<or> x \<in> set (dedupe (insert (link i) seen) rest)" by simp
    then show ?thesis
    proof
      assume "x = i"
      then show ?thesis by simp
    next
      assume in_rest: "x \<in> set (dedupe (insert (link i) seen) rest)"
      then have "link x \<in> link ` set (dedupe (insert (link i) seen) rest)" by blast
      then have "link x \<notin> insert (link i) seen"
        using dedupe_links [of "insert (link i) seen" rest] by blast
      then have "link i \<noteq> link x" by auto
      with Cons.IH [OF in_rest] show ?thesis by simp
    qed
  qed
qed

lemma dedupe_append:
  "dedupe seen (xs @ ys) = dedupe seen xs @ dedupe (seen \<union> link ` set xs) ys"
  by (induction xs arbitrary: seen) (auto simp: insert_absorb)

lemma dedupe_id:
  "distinct (map link xs) \<Longrightarrow> link ` set xs \<inter> seen = {} \<Longrightarrow> dedupe seen xs = xs"
  by (induction xs arbitrary: seen) auto

lemma dedupe_absorb: "dedupe {} (dedupe {} xs @ ys) = dedupe {} (xs @ ys)"
proof -
  have d: "dedupe {} (dedupe {} xs) = dedupe {} xs"
    using dedupe_links [of "{}" xs] by (intro dedupe_id) auto
  show ?thesis
    using dedupe_links [of "{}" xs] by (simp add: dedupe_append d)
qed

lemma length_dedupe:
  "length (dedupe seen xs) = card (link ` set xs - seen)"
proof -
  have "length (dedupe seen xs) = length (map link (dedupe seen xs))" by simp
  also have "\<dots> = card (set (map link (dedupe seen xs)))"
    using dedupe_links [of seen xs] by (simp only: distinct_card)
  also have "\<dots> = card (link ` set xs - seen)"
    using dedupe_links [of seen xs] by simp
  finally show ?thesis .
qed

lemma newly_unique_card:
  "newly_unique appendp newItems prev =
     card (link ` set newItems - (if appendp then link ` set prev else {}))"
proof -
  have "set (filter (\<lambda>l. l \<notin> set (if appendp then map link prev else [])) (map link newItems))
        = link ` set newItems - (if appendp then link ` set prev else {})"
    by auto
  then show ?thesis
    unfolding newly_unique_def by (simp only: length_remdups_card_conv)
qed

lemma merged_count:
  "distinct (map link prev) \<Longrightarrow>
     length (mergeItems True newItems prev) = length prev + newly_unique True newItems prev"
proof -
  assume d: "distinct (map link prev)"
  have "dedupe {} prev = prev" using d by (intro dedupe_id) auto
  then have "length (mergeItems True newItems prev) =
      length prev + length (dedupe (link ` set prev) newItems)"
    by (simp add: mergeItems_def dedupe_append)
  then show ?thesis
    by (simp add: length_dedupe newly_unique_card)
qed

lemma merged_count_replace:
  "length (mergeItems False newItems prev) = newly_unique False newItems prev"
  by (simp add: mergeItems_def length_dedupe newly_unique_card)

lemma newly_unique_le: "newly_unique appendp newItems prev \<le> length newItems"
proof -
  have "length (remdups (filter (\<lambda>l. l \<notin> set (if appendp then map link prev else []))
                             (map link newItems)))
        \<le> length (filter (\<lambda>l. l \<notin> set (if appendp then map link prev else []))
                             (map link newItems))"
    by (rule length_remdups_leq)
  also have "\<dots> \<le> length (map link newItems)" by (rule length_filter_le)
  finally show ?thesis by (simp add: newly_unique_def)
qed

subsection \<open>A successful fetch\<close>

lemma fetchResults_success:
  "startIndex \<le> 100 \<Longrightarrow> response_ok status \<Longrightarrow>
     fetchResults q startIndex appendp (Responded status data) st =
       (finally_flags (on_success startIndex appendp data
          (if appendp then st\<lparr>loadingMore := True\<rparr> else st\<lparr>loading := True\<rparr>)),
        [SearchRequest q startIndex])"
  by (simp add: fetchResults_def fetchResults_begin_def fetchResults_settle_def)

lemma success_fields:
  assumes "startIndex \<le> 100" "response_ok status"
  shows "start (fst (fetchResults q startIndex appendp (Responded status data) st)) =
           startIndex + int (length (page_items data))"
    and "items (fst (fetchResults q startIndex appendp (Responded status data) st)) =
           mergeItems appendp (page_items data) (items st)"
    and "totalResults (fst (fetchResults q startIndex appendp (Responded status data) st)) =
           parse_total data"
    and "hasMore (fst (fetchResults q startIndex appendp (Responded status data) st)) =
           (\<not> (length (page_items data) = 0 \<or>
               (case parse_total data of None \<Rightarrow> False
                | Some t \<Rightarrow> js_gt (startIndex + int (length (page_items data))) t)))"
    and "snd (fetchResults q startIndex appendp (Responded status data) st) =
           [SearchRequest q startIndex]"
  using assms
  by (simp_all add: fetchResults_success on_success_def finally_flags_def Let_def)

subsection \<open>The next start index\<close>

text \<open>
  Claim C1, as the specification states it, fails: a continuation fetch at start index 2
  whose page holds only the item \<open>a\<close> already held merges no new item (\<open>k = 0\<close>), and the
  next start index is 3, not \<open>2 + 0\<close>. The first conjunct shows the held state is the one a
  first fetch produces.
\<close>

theorem nextOffset_not_merged_count:
  "fetchResults ''cats'' 1 False (ok_page [''a''] None) cats_page =
     (cats_page\<lparr>items := [item_of ''a''], start := 2\<rparr>, [SearchRequest ''cats'' 1]) \<and>
   newly_unique True [item_of ''a''] [item_of ''a''] = 0 \<and>
   fetchResults ''cats'' 2 True (ok_page [''a''] None)
       (cats_page\<lparr>items := [item_of ''a''], start := 2\<rparr>) =
     (cats_page\<lparr>items := [item_of ''a''], start := 3\<rparr>, [SearchRequest ''cats'' 2])"
  by (simp add: page_defs newly_unique_def)

text \<open>
  Claim C1, amended: after a successful fetch at start index \<open>o\<close> the next start index is
  \<open>o + n\<close>, where \<open>n\<close> is the number of items the page returned (the comment in the source
  says so: "start + number of items returned"). The number \<open>k\<close> of newly-unique items is at
  most \<open>n\<close>, and the next start index is \<open>o + k\<close> exactly when \<open>k = n\<close>, that is when
  deduplication dropped nothing of the page. \<open>k\<close> is the number of items by which the held
  sequence grows.
\<close>

theorem nextOffset_advances_by_returned_count:
  "startIndex \<le> 100 \<Longrightarrow> response_ok status \<Longrightarrow>
     start (fst (fetchResults q startIndex appendp (Responded status data) st)) =
       startIndex + int (length (page_items data)) \<and>
     newly_unique appendp (page_items data) (items st) \<le> length (page_items data) \<and>
     (start (fst (fetchResults q startIndex appendp (Responded status data) st)) =
        startIndex + int (newly_unique appendp (page_items data) (items st))
      \<longleftrightarrow> newly_unique appendp (page_items data) (items st) = length (page_items data)) \<and>
     ((appendp \<longrightarrow> distinct (map link (items st))) \<longrightarrow>
        length (items (fst (fetchResults q startIndex appendp (Responded status data) st))) =
          (if appendp then length (items st) else 0) +
          newly_unique appendp (page_items data) (items st))"
proof -
  assume a: "startIndex \<le> 100" "response_ok status"
  let ?st' = "fst (fetchResults q startIndex appendp (Responded status data) st)"
  let ?k = "newly_unique appendp (page_items data) (items st)"
  have s: "start ?st' = startIndex + int (length (page_items data))"
    using a by (rule success_fields)
  have le: "?k \<le> length (page_items data)" by (rule newly_unique_le)
  have eq: "(start ?st' = startIndex + int ?k) \<longleftrightarrow> (?k = length (page_items data))"
    using s by auto
  have len: "(appendp \<longrightarrow> distinct (map link (items st))) \<longrightarrow>
      length (items ?st') = (if appendp then length (items st) else 0) + ?k"
    using success_fields(2) [OF a, of q appendp data st] merged_count merged_count_replace
    by (cases appendp) auto
  from s le eq len show ?thesis by blast
qed

theorem nextOffset_advances_by_returned_count_witness:
  "(2::int) \<le> 100 \<and> response_ok 200 \<and>
   start (fst (fetchResults ''cats'' 2 True (ok_page [''b'', ''a''] None) held_a)) = 4 \<and>
   newly_unique True [item_of ''b'', item_of ''a''] (items held_a) = 1 \<and>
   items (fst (fetchResults ''cats'' 2 True (ok_page [''b'', ''a''] None) held_a)) =
     [item_of ''a'', item_of ''b'']"
  using nextOffset_advances_by_returned_count
    [of 2 200 "''cats''" True
        "\<lparr> resp_items = Some (map raw_item [''b'', ''a'']), resp_totalResults = None,
           resp_error = ErrorAbsent, resp_details = None \<rparr>" held_a]
  by (simp add: page_defs held_a_def newly_unique_def)

subsection \<open>More pages\<close>

text \<open>
  Claim C2, with "new items" read as the specification reads it (new after deduplication),
  fails: a continuation page that holds only an item already held yields no new item, no
  total is known, and \<open>hasMore\<close> is set to true.
\<close>

theorem hasMore_true_without_new_items:
  "newly_unique True (page_items \<lparr> resp_items = Some [raw_item ''a''], resp_totalResults = None,
           resp_error = ErrorAbsent, resp_details = None \<rparr>) (items held_a) = 0 \<and>
   hasMore (fst (fetchResults ''cats'' 2 True (ok_page [''a''] None) held_a)) = True \<and>
   totalResults (fst (fetchResults ''cats'' 2 True (ok_page [''a''] None) held_a)) = None \<and>
   items (fst (fetchResults ''cats'' 2 True (ok_page [''a''] None) held_a)) = items held_a"
  by (simp add: page_defs held_a_def newly_unique_def)

text \<open>
  Claim C2, amended: after a successful fetch \<open>hasMore\<close> is false if and only if the page
  returned no item at all, or the total is known (a number) and the updated start index
  (the start index of the request plus the number of items returned) exceeds it; otherwise
  it is true. The witness is the scenario of the claim: a first page at start index 1 with
  10 items and \<open>totalResults = "10"\<close> gives \<open>hasMore = false\<close> and start index 11, and the
  sentinel then issues no request.
\<close>

theorem hasMore_after_success:
  "startIndex \<le> 100 \<Longrightarrow> response_ok status \<Longrightarrow>
     (hasMore (fst (fetchResults q startIndex appendp (Responded status data) st)) = False
      \<longleftrightarrow> (length (page_items data) = 0 \<or>
           (\<exists>t. totalResults (fst (fetchResults q startIndex appendp (Responded status data) st))
                  = Some (Num t) \<and>
                start (fst (fetchResults q startIndex appendp (Responded status data) st)) > t))) \<and>
     start (fst (fetchResults q startIndex appendp (Responded status data) st)) =
       startIndex + int (length (page_items data)) \<and>
     totalResults (fst (fetchResults q startIndex appendp (Responded status data) st)) =
       parse_total data"
proof -
  assume a: "startIndex \<le> 100" "response_ok status"
  have gt: "(case tt of None \<Rightarrow> False | Some t \<Rightarrow> js_gt n t) \<longleftrightarrow> (\<exists>t. tt = Some (Num t) \<and> n > t)"
    for tt n
    by (cases tt; simp) (metis js_gt.elims(2) js_gt.simps(2))
  show ?thesis
    by (simp add: success_fields [OF a] gt)
qed

theorem hasMore_after_success_witness:
  "(1::int) \<le> 100 \<and> response_ok 200 \<and>
   length ten_links = 10 \<and>
   hasMore (fst (fetchResults ''cats'' 1 False (ok_page ten_links (Some ''10'')) cats_page)) = False \<and>
   start (fst (fetchResults ''cats'' 1 False (ok_page ten_links (Some ''10'')) cats_page)) = 11 \<and>
   totalResults (fst (fetchResults ''cats'' 1 False (ok_page ten_links (Some ''10'')) cats_page))
     = Some (Num 10) \<and>
   snd (step SentinelIntersects
          (fst (fetchResults ''cats'' 1 False (ok_page ten_links (Some ''10'')) cats_page), [])) = []"
  using hasMore_after_success
    [of 1 200 "''cats''" False
        "\<lparr> resp_items = Some (map raw_item ten_links), resp_totalResults = Some ''10'',
           resp_error = ErrorAbsent, resp_details = None \<rparr>" cats_page]
  by (simp add: page_defs ten_links_def parseInt_def is_ws_def is_digit_def digit_val_def)

subsection \<open>Items of a session\<close>

lemma begin_items: "items (fst (fetchResults_begin q s a st)) = items st"
  by (simp add: fetchResults_begin_def finally_flags_def Let_def)

lemma distinct_mergeItems: "distinct (map link (mergeItems a new prev))"
  by (simp add: mergeItems_def dedupe_links)

lemma settle_distinct:
  "distinct (map link (items st)) \<Longrightarrow>
     distinct (map link (items (fetchResults_settle s a res st)))"
  by (cases res)
     (simp_all add: fetchResults_settle_def finally_flags_def on_success_def Let_def
        distinct_mergeItems)

lemma step_distinct:
  "distinct (map link (items (fst a))) \<Longrightarrow>
     distinct (map link (items (fst (fst (step e a)))))"
proof (cases a)
  case (Pair st pend)
  assume d: "distinct (map link (items (fst a)))"
  show ?thesis
  proof (cases e)
    case SentinelIntersects
    with Pair d begin_items [of "trim (query st)" "start st" True st] show ?thesis
      by (cases "fetchResults_begin (trim (query st)) (start st) True st")
         (auto split: option.splits)
  next
    case (FetchSettles i res)
    with Pair d show ?thesis by (simp add: settle_distinct)
  qed
qed

lemma run_Cons_fst: "fst (run (e # es) a) = fst (run es (fst (step e a)))"
  by (cases "step e a"; cases "run es (fst (step e a))") simp


lemma run_distinct:
  "distinct (map link (items (fst a))) \<Longrightarrow>
     distinct (map link (items (fst (fst (run evs a)))))"
proof (induction evs arbitrary: a)
  case Nil
  then show ?case by simp
next
  case (Cons e es)
  have "distinct (map link (items (fst (fst (step e a)))))"
    using Cons.prems by (rule step_distinct)
  then have "distinct (map link (items (fst (fst (run es (fst (step e a)))))))"
    by (rule Cons.IH)
  then show ?case by (simp only: run_Cons_fst)
qed

lemma start_session_items:
  "trim (query st) \<noteq> [] \<Longrightarrow> items (fst (start_session st)) = []"
  by (simp add: start_session_def handleSearch_def fetchResults_begin_def Let_def)

lemma mergeItems_fold:
  "foldl (\<lambda>acc p. mergeItems True p acc) (dedupe {} xs) ps = dedupe {} (xs @ concat ps)"
proof (induction ps arbitrary: xs)
  case Nil
  then show ?case by simp
next
  case (Cons p ps)
  have "mergeItems True p (dedupe {} xs) = dedupe {} (xs @ p)"
    by (simp add: mergeItems_def dedupe_absorb)
  then show ?case using Cons.IH [of "xs @ p"] by simp
qed

lemma mergeItems_prefix:
  "distinct (map link prev) \<Longrightarrow> prefix prev (mergeItems True new prev)"
proof -
  assume "distinct (map link prev)"
  then have "dedupe {} prev = prev" by (intro dedupe_id) auto
  then show ?thesis by (simp add: mergeItems_def dedupe_append)
qed

lemmas run_defs =
  start_session_def handleSearch_def trim_def is_ws_def

text \<open>
  Claim C4: the items of a session never hold two entries with the same link, and they are
  in first-seen order. In the event system, after a search is submitted every sequence of
  events (sentinel triggers and responses, successful or not) leaves the links distinct.
  A successful fetch sets the items to the merge of the page into the held items; the
  merge has distinct links, is a subsequence of the held items followed by the page (the
  page alone in replace mode), keeps every link, keeps of each link its first occurrence,
  and keeps held items with distinct links in place as a prefix. A first page followed by
  any continuation pages gives the first occurrences, in order, of all pages concatenated.
\<close>

theorem items_deduplicated_first_seen:
  "(trim (query st) \<noteq> [] \<longrightarrow>
      distinct (map link (items (fst (fst (run evs (start_session st))))))) \<and>
   (startIndex \<le> 100 \<and> response_ok status \<longrightarrow>
      items (fst (fetchResults q startIndex appendp (Responded status data) st)) =
        mergeItems appendp (page_items data) (items st)) \<and>
   distinct (map link (mergeItems appendp new prev)) \<and>
   subseq (mergeItems appendp new prev) (if appendp then prev @ new else new) \<and>
   link ` set (mergeItems appendp new prev) = link ` set (if appendp then prev @ new else new) \<and>
   (\<forall>x \<in> set (mergeItems appendp new prev).
      find (\<lambda>y. link y = link x) (if appendp then prev @ new else new) = Some x) \<and>
   (distinct (map link prev) \<longrightarrow> prefix prev (mergeItems True new prev)) \<and>
   foldl (\<lambda>acc p. mergeItems True p acc) (mergeItems False p0 prev) ps = dedupe {} (concat (p0 # ps))"
proof -
  have inv: "trim (query st) \<noteq> [] \<longrightarrow>
      distinct (map link (items (fst (fst (run evs (start_session st))))))"
    by (simp add: run_distinct start_session_items)
  have stp: "startIndex \<le> 100 \<and> response_ok status \<longrightarrow>
      items (fst (fetchResults q startIndex appendp (Responded status data) st)) =
        mergeItems appendp (page_items data) (items st)"
    by (simp add: success_fields)
  have sub: "subseq (mergeItems appendp new prev) (if appendp then prev @ new else new)"
    unfolding mergeItems_def by (rule subseq_dedupe)
  have lnk: "link ` set (mergeItems appendp new prev) =
      link ` set (if appendp then prev @ new else new)"
    unfolding mergeItems_def using dedupe_links [of "{}"] by simp
  have fst_occ: "\<forall>x \<in> set (mergeItems appendp new prev).
      find (\<lambda>y. link y = link x) (if appendp then prev @ new else new) = Some x"
    unfolding mergeItems_def using dedupe_first by blast
  have pre: "distinct (map link prev) \<longrightarrow> prefix prev (mergeItems True new prev)"
    by (simp add: mergeItems_prefix)
  have fld: "foldl (\<lambda>acc p. mergeItems True p acc) (mergeItems False p0 prev) ps =
      dedupe {} (concat (p0 # ps))"
    using mergeItems_fold [of p0 ps] by (simp add: mergeItems_def)
  from inv stp distinct_mergeItems sub lnk fst_occ pre fld show ?thesis by blast
qed

theorem items_deduplicated_first_seen_witness:
  "trim (query held_a) \<noteq> [] \<and>
   items (fst (fst (run [FetchSettles 0 (ok_page [''a'', ''b'', ''a''] None), SentinelIntersects,
                         FetchSettles 0 (ok_page [''b'', ''c''] None)]
                        (start_session held_a)))) =
     [item_of ''a'', item_of ''b'', item_of ''c''] \<and>
   (2::int) \<le> 100 \<and> response_ok 200 \<and>
   items (fst (fetchResults ''cats'' 2 True (ok_page [''b'', ''a''] None) held_a)) =
     [item_of ''a'', item_of ''b''] \<and>
   item_of ''b'' \<in> set (mergeItems True [item_of ''b'', item_of ''a''] [item_of ''a'']) \<and>
   find (\<lambda>y. link y = link (item_of ''b'')) ([item_of ''a''] @ [item_of ''b'', item_of ''a''])
     = Some (item_of ''b'') \<and>
   distinct (map link [item_of ''a'']) \<and>
   prefix [item_of ''a''] (mergeItems True [item_of ''b'', item_of ''a''] [item_of ''a''])"
  using items_deduplicated_first_seen
    [of held_a "[FetchSettles 0 (ok_page [''a'', ''b'', ''a''] None), SentinelIntersects,
                 FetchSettles 0 (ok_page [''b'', ''c''] None)]"
        2 200 "''cats''" True
        "\<lparr> resp_items = Some (map raw_item [''b'', ''a'']), resp_totalResults = None,
           resp_error = ErrorAbsent, resp_details = None \<rparr>"
        "[item_of ''b'', item_of ''a'']" "[item_of ''a'']"
        "[item_of ''a'', item_of ''b'', item_of ''a'']" "[[item_of ''b'', item_of ''c'']]"]
  by (simp add: page_defs run_defs held_a_def)

subsection \<open>The end of pagination\<close>











subsection \<open>Gateway errors\<close>

text \<open>
  A response that is not \<open>ok\<close> leaves the items alone, sets \<open>hasMore\<close> to false and sets the
  error text. A body of the declared shape \<open>{error: {message, details?}}\<close> has its details,
  else its message, shown; every error body the route handler of \<open>/api/search\<close> builds has a
  string as \<open>error\<close>, and the generic text is shown for it.
\<close>

lemma gateway_error_effects:
  "startIndex \<le> 100 \<Longrightarrow> \<not> response_ok status \<Longrightarrow>
     fetchResults q startIndex appendp (Responded status data) st =
       (st\<lparr>loading := False, loadingMore := False, error := Some (error_text data),
           hasMore := False\<rparr>, [SearchRequest q startIndex])"
  by (cases appendp)
     (simp_all add: fetchResults_def fetchResults_begin_def fetchResults_settle_def
        finally_flags_def)

lemma error_text_declared_shape:
  "error_text (data\<lparr>resp_error := ErrorObject msg det\<rparr>) =
     (case js_or det None of
        Some d \<Rightarrow> d
      | None \<Rightarrow> (case js_or msg None of Some m \<Rightarrow> m | None \<Rightarrow> ''An unknown error occurred.''))"
  by (simp add: error_text_def js_or_def split: option.splits)

lemma route_error_text:
  "\<not> response_ok (fst (fst (search_GET k c q sp up))) \<Longrightarrow>
     error_text (snd (fst (search_GET k c q sp up))) = ''An unknown error occurred.''"
  by (auto simp: search_GET_def error_body_def error_text_def js_or_def response_ok_def Let_def
      split: option.splits fetch_result.splits if_splits)

text \<open>
  Claim C3 fails on the code at a continuation fetch at start index 11 whose upstream answer
  is 403 with the message "Daily Limit Exceeded": the route handler answers 403 with
  \<open>{error: "Search API error", details: "Daily Limit Exceeded"}\<close>, and the page, which reads
  \<open>data.error?.details\<close> and \<open>data.error?.message\<close>, shows "An unknown error occurred."
  although a message was provided. The items are left unchanged and \<open>hasMore\<close> is false, as
  the claim says.
\<close>

theorem gateway_message_not_surfaced:
  "search_GET (Some ''key'') (Some ''cx'') (Some ''cats'') (Some ''11'') (Responded 403 google_403) =
     ((403, error_body ''Search API error'' (Some ''Daily Limit Exceeded'')),
      [GoogleRequest ''key'' ''cx'' ''cats'' 11]) \<and>
   fetchResults ''cats'' 11 True
       (Responded 403 (error_body ''Search API error'' (Some ''Daily Limit Exceeded''))) held_ten =
     (held_ten\<lparr>error := Some ''An unknown error occurred.'', hasMore := False\<rparr>,
      [SearchRequest ''cats'' 11])"
  by (simp add: search_GET_def effective_start_def parseInt_def is_ws_def is_digit_def
      digit_val_def google_403_def error_body_def page_defs held_ten_def)

subsection \<open>The load state of an image\<close>







subsection \<open>The image proxy\<close>

text \<open>
  Claim C8: when \<open>u\<close> is absent (or empty), does not parse as an absolute URL, or parses with
  a protocol other than \<open>http:\<close> and \<open>https:\<close>, the proxy answers 400 with a JSON error and
  fetches nothing, for every URL parser and whatever the upstream would answer. The witness
  is \<open>u=ftp://example.com/x.png\<close>.
\<close>

theorem proxy_rejects_bad_target:
  "u = None \<or> u = Some [] \<or>
   (\<exists>s. u = Some s \<and> parseURL s = None) \<or>
   (\<exists>s p. u = Some s \<and> parseURL s = Some p \<and> protocol p \<noteq> ''http:'' \<and> protocol p \<noteq> ''https:'')
   \<Longrightarrow>
     p_status (fst (image_proxy_GET parseURL u upstream)) = 400 \<and>
     snd (image_proxy_GET parseURL u upstream) = [] \<and>
     (\<exists>msg. p_body (fst (image_proxy_GET parseURL u upstream)) = JsonError msg None None)"
  by (auto simp: image_proxy_GET_def js_or_def json_error_def split: option.splits)

theorem proxy_rejects_bad_target_witness:
  "scheme_parser ''ftp://example.com/x.png'' = Some \<lparr> protocol = ''ftp:'' \<rparr> \<and>
   image_proxy_GET scheme_parser (Some ''ftp://example.com/x.png'')
      (UpstreamResponse 200 ''OK'' (Some ''image/png'') ''bytes'') =
     (json_error ''Invalid url'' None None 400, []) \<and>
   scheme_parser ''/images/x.png'' = None \<and>
   image_proxy_GET scheme_parser (Some ''/images/x.png'')
      (UpstreamResponse 200 ''OK'' (Some ''image/png'') ''bytes'') =
     (json_error ''Invalid url'' None None 400, []) \<and>
   image_proxy_GET scheme_parser None (UpstreamResponse 200 ''OK'' (Some ''image/png'') ''bytes'') =
     (json_error ''Missing url parameter (u)'' None None 400, [])"
  using proxy_rejects_bad_target
    [of "Some ''ftp://example.com/x.png''" scheme_parser
        "UpstreamResponse 200 ''OK'' (Some ''image/png'') ''bytes''"]
  by (simp add: image_proxy_GET_def js_or_def json_error_def scheme_parser_def is_scheme_char_def
      is_digit_def Let_def)



subsection \<open>The start parameter of the search endpoint\<close>



text \<open>\<open>parseInt\<close> reads a numeric prefix: such a parameter counts as numeric.\<close>

lemma effective_start_numeric_prefix: "effective_start (Some ''12abc'') = 12"
  by (simp add: effective_start_def parseInt_def is_ws_def is_digit_def digit_val_def js_or_def)

end
